theory Spec2Isabelle
  imports Main
begin

section \<open>Objects and the host\<close>

text \<open>
  The extension keeps its bookmarks as JavaScript objects: the store's array holds
  references to \<open>Favorite\<close> and \<open>Group\<close> objects, a group's \<open>children\<close> array holds
  references to \<open>Favorite\<close> objects, and the command handlers receive such references from
  the tree view and mutate the objects in place (\<open>bk.label = label\<close>). The model keeps that
  sharing: objects live in a heap indexed by addresses, and arrays hold addresses.
\<close>

type_synonym ref = nat

text \<open>
  Modelled from the spec: the classes \<open>Favorite\<close> and \<open>Group\<close> of \<open>model.ts\<close>, which is
  missing. A bookmarkable has a label and a unique identifier; a favorite refers to a
  path and optionally to the identifier of its parent group, a group holds an ordered
  sequence of child favorites. The fields are the ones \<open>manager.ts\<close> reads and writes
  (\<open>description\<close> is the quick-pick text \<open>openFavorite\<close> sets). A selector applied to an
  object of the other class yields what the JavaScript property read yields
  (\<open>undefined\<close>), or the empty array for \<open>children\<close>; the TypeScript types exclude these
  reads.
\<close>

datatype bookmarkable =
    isFavorite: Favorite (uuid: string) (label: string) (resourcePath: string)
      (parent: "string option") (description: "string option")
  | isGroup: Group (uuid: string) (label: string) (children: "ref list")
where
  "resourcePath (Group u l cs) = []"
| "parent (Group u l cs) = None"
| "description (Group u l cs) = None"
| "children (Favorite u l p g d) = []"

fun set_label :: "string \<Rightarrow> bookmarkable \<Rightarrow> bookmarkable" where
  "set_label l (Favorite u _ p g d) = Favorite u l p g d"
| "set_label l (Group u _ cs) = Group u l cs"

fun set_resourcePath :: "string \<Rightarrow> bookmarkable \<Rightarrow> bookmarkable" where
  "set_resourcePath p (Favorite u l _ g d) = Favorite u l p g d"
| "set_resourcePath p (Group u l cs) = Group u l cs"

fun set_parent :: "string option \<Rightarrow> bookmarkable \<Rightarrow> bookmarkable" where
  "set_parent g (Favorite u l p _ d) = Favorite u l p g d"
| "set_parent g (Group u l cs) = Group u l cs"

fun set_description :: "string option \<Rightarrow> bookmarkable \<Rightarrow> bookmarkable" where
  "set_description d (Favorite u l p g _) = Favorite u l p g d"
| "set_description d (Group u l cs) = Group u l cs"

fun set_children :: "ref list \<Rightarrow> bookmarkable \<Rightarrow> bookmarkable" where
  "set_children cs (Favorite u l p g d) = Favorite u l p g d"
| "set_children cs (Group u l _) = Group u l cs"

text \<open>
  The persisted document, after the host's \<open>JSON.parse\<close>: a JSON value. The host's parser
  and printer are outside the model; a file whose text is not JSON at all is \<open>None\<close> in
  the field \<open>storeFile\<close> below.
\<close>

datatype json = JNull | JString string | JArray "json list" | JObject "(string \<times> json) list"

text \<open>
  The state the handlers act on: the heap of objects with its allocation pointer, the
  store's array \<open>_favorites\<close> (the top-level entries), and the persisted document.
\<close>

record world =
  heap :: "ref \<Rightarrow> bookmarkable"
  fresh :: ref
  favorites :: "ref list"
  storeFile :: "json option"

text \<open>
  What the host supplies during one run of a handler: the active editor's path if an
  editor is open, what the input box, the quick pick (the index of the picked item) and
  the buttons of a warning resolve to (\<open>None\<close> when the user dismisses the prompt),
  \<open>Utils.fileName\<close> (\<open>utils.ts\<close> is not part of the sources at hand and only feeds the
  default text of an input box), and the identifier a constructor draws for the object it
  allocates at a given address.
\<close>

record host =
  activeTextEditor :: "string option"
  inputBox :: "string option"
  quickPick :: "nat option"
  warningChoice :: "string option"
  fileName :: "string \<Rightarrow> string"
  uuidv4 :: "ref \<Rightarrow> string"

text \<open>The calls a handler makes on the host's window, tree view and tree provider, in order.\<close>

datatype event =
    ShowInputBox string string
  | ShowQuickPick "ref list"
  | ShowWarningMessage string "string list"
  | ShowErrorMessage string "string list"
  | ShowTextDocument string
  | ProviderRefresh "ref option"
  | Reveal ref

datatype error = Error (message: string)

text \<open>JavaScript truthiness of a \<open>string | undefined\<close>: defined and not the empty string.\<close>

fun truthy :: "string option \<Rightarrow> bool" where
  "truthy None = False"
| "truthy (Some s) = (s \<noteq> [])"

text \<open>\<open>showQuickPick(items)\<close>: the picked item, or nothing when the prompt is dismissed.\<close>

definition showQuickPick :: "host \<Rightarrow> 'a list \<Rightarrow> 'a option" where
  "showQuickPick h items =
     (case quickPick h of
        None \<Rightarrow> None
      | Some i \<Rightarrow> if i < length items then Some (items ! i) else None)"

text \<open>Assignment to a field of the object at an address.\<close>

definition assign :: "ref \<Rightarrow> (bookmarkable \<Rightarrow> bookmarkable) \<Rightarrow> world \<Rightarrow> world" where
  "assign r f w = w\<lparr>heap := (heap w)(r := f (heap w r))\<rparr>"

text \<open>
  Modelled from the spec: the constructors of \<open>model.ts\<close>, which is missing. A new object
  has a unique identifier, an empty label and, for a group, no children.
\<close>

definition new_Favorite :: "host \<Rightarrow> world \<Rightarrow> ref \<times> world" where
  "new_Favorite h w =
     (fresh w,
      w\<lparr>heap := (heap w)(fresh w := Favorite (uuidv4 h (fresh w)) [] [] None None),
        fresh := Suc (fresh w)\<rparr>)"

definition new_Group :: "host \<Rightarrow> world \<Rightarrow> ref \<times> world" where
  "new_Group h w =
     (fresh w,
      w\<lparr>heap := (heap w)(fresh w := Group (uuidv4 h (fresh w)) [] []),
        fresh := Suc (fresh w)\<rparr>)"

text \<open>
  Modelled from the spec: the getter \<open>Group.hasChildren\<close> of \<open>model.ts\<close>, which is
  missing. A group has children when its sequence of child favorites is not empty.
\<close>

definition hasChildren :: "bookmarkable \<Rightarrow> bool" where
  "hasChildren g = (children g \<noteq> [])"

text \<open>
  Modelled from the spec: \<open>Group.addChild\<close> of \<open>model.ts\<close>, which is missing. A favorite
  carries the identifier of its parent group and a group holds an ordered sequence of
  child favorites: adding sets the child's parent reference and appends the child.
\<close>

definition addChild :: "ref \<Rightarrow> ref \<Rightarrow> world \<Rightarrow> world" where
  "addChild g f w =
     (let w1 = assign f (set_parent (Some (uuid (heap w g)))) w
      in assign g (set_children (children (heap w1 g) @ [f])) w1)"

text \<open>
  Modelled from the spec: \<open>Group.removeChild\<close> of \<open>model.ts\<close>, which is missing. Removing
  takes the child out of the group's sequence.
\<close>

definition removeChild :: "ref \<Rightarrow> ref \<Rightarrow> world \<Rightarrow> world" where
  "removeChild g f w = assign g (set_children (removeAll f (children (heap w g)))) w"

section \<open>The store\<close>

text \<open>
  \<open>store.ts\<close> is not part of the sources at hand. Its operations are modelled from the
  specification's contract of the store: \<open>add(entry)\<close>, \<open>update(entry?)\<close>, \<open>delete(entry)\<close>,
  \<open>all()\<close>, \<open>groups()\<close>, \<open>getParent(favorite)\<close>, \<open>refresh()\<close>, the in-memory list as the source
  of truth, written back on every mutation.
\<close>

text \<open>
  Modelled from the spec: a record of the persisted document, which is missing with
  \<open>store.ts\<close>. The document lists the entries by kind, label, and path or children; a
  favorite is a label and a path, a group is a label and its child favorites.
\<close>

datatype entry = FavoriteEntry string string | GroupEntry string "(string \<times> string) list"

text \<open>Modelled from the spec: the record of the object at an address (missing with \<open>store.ts\<close>).\<close>

definition entryOf :: "world \<Rightarrow> ref \<Rightarrow> entry" where
  "entryOf w r =
     (case heap w r of
        Favorite u l p g d \<Rightarrow> FavoriteEntry l p
      | Group u l cs \<Rightarrow> GroupEntry l (map (\<lambda>c. (label (heap w c), resourcePath (heap w c))) cs))"

text \<open>Modelled from the spec: the entity list of the store, as records (missing with \<open>store.ts\<close>).\<close>

definition entries :: "world \<Rightarrow> entry list" where
  "entries w = map (entryOf w) (favorites w)"

text \<open>Modelled from the spec: the JSON record of a favorite (missing with \<open>store.ts\<close>).\<close>

definition favoriteJson :: "string \<times> string \<Rightarrow> json" where
  "favoriteJson f =
     JObject [(''kind'', JString ''favorite''), (''label'', JString (fst f)),
              (''resourcePath'', JString (snd f))]"

text \<open>Modelled from the spec: the JSON record of an entry (missing with \<open>store.ts\<close>).\<close>

fun entryJson :: "entry \<Rightarrow> json" where
  "entryJson (FavoriteEntry l p) = favoriteJson (l, p)"
| "entryJson (GroupEntry l cs) =
     JObject [(''kind'', JString ''group''), (''label'', JString l),
              (''children'', JArray (map favoriteJson cs))]"

text \<open>Modelled from the spec: the persisted JSON document of an entity list (missing with \<open>store.ts\<close>).\<close>

definition toJson :: "entry list \<Rightarrow> json" where
  "toJson es = JArray (map entryJson es)"

text \<open>
  Modelled from the spec: reading a favorite's record back (missing with \<open>store.ts\<close>). A
  record without the kind discriminator, the label or the path is malformed.
\<close>

fun jsonFavorite :: "json \<Rightarrow> (string \<times> string) option" where
  "jsonFavorite (JObject kvs) =
     (case map_of kvs ''kind'' of
        Some (JString k) \<Rightarrow>
          if k = ''favorite'' then
            (case map_of kvs ''label'' of
               Some (JString l) \<Rightarrow>
                 (case map_of kvs ''resourcePath'' of
                    Some (JString p) \<Rightarrow> Some (l, p)
                  | _ \<Rightarrow> None)
             | _ \<Rightarrow> None)
          else None
      | _ \<Rightarrow> None)"
| "jsonFavorite _ = None"

text \<open>Modelled from the spec: reading an entry's record back (missing with \<open>store.ts\<close>).\<close>

fun jsonEntry :: "json \<Rightarrow> entry option" where
  "jsonEntry (JObject kvs) =
     (case map_of kvs ''kind'' of
        Some (JString k) \<Rightarrow>
          if k = ''favorite'' then
            map_option (\<lambda>f. FavoriteEntry (fst f) (snd f)) (jsonFavorite (JObject kvs))
          else if k = ''group'' then
            (case map_of kvs ''label'' of
               Some (JString l) \<Rightarrow>
                 (case map_of kvs ''children'' of
                    Some (JArray cs) \<Rightarrow> map_option (GroupEntry l) (those (map jsonFavorite cs))
                  | _ \<Rightarrow> None)
             | _ \<Rightarrow> None)
          else None
      | _ \<Rightarrow> None)"
| "jsonEntry _ = None"

text \<open>
  Modelled from the spec: reading the persisted document back (missing with \<open>store.ts\<close>).
  The document is a JSON array of entry records; anything else is malformed.
\<close>

fun fromJson :: "json \<Rightarrow> entry list option" where
  "fromJson (JArray js) = those (map jsonEntry js)"
| "fromJson _ = None"

text \<open>
  Modelled from the spec: building the objects of a loaded group's children (missing with
  \<open>store.ts\<close>). Each child is a new favorite added to the group.
\<close>

fun loadChildren :: "host \<Rightarrow> ref \<Rightarrow> (string \<times> string) list \<Rightarrow> world \<Rightarrow> world" where
  "loadChildren h g [] w = w"
| "loadChildren h g (c # cs) w =
     (let (f, w1) = new_Favorite h w;
          w2 = assign f (set_label (fst c)) w1;
          w3 = assign f (set_resourcePath (snd c)) w2
      in loadChildren h g cs (addChild g f w3))"

text \<open>
  Modelled from the spec: building the objects of a loaded entity list (missing with
  \<open>store.ts\<close>); the result is the list of their addresses, in the document's order.
\<close>

fun loadEntries :: "host \<Rightarrow> entry list \<Rightarrow> world \<Rightarrow> ref list \<times> world" where
  "loadEntries h [] w = ([], w)"
| "loadEntries h (FavoriteEntry l p # es) w =
     (let (f, w1) = new_Favorite h w;
          w2 = assign f (set_label l) w1;
          w3 = assign f (set_resourcePath p) w2;
          (rs, w4) = loadEntries h es w3
      in (f # rs, w4))"
| "loadEntries h (GroupEntry l cs # es) w =
     (let (g, w1) = new_Group h w;
          w2 = assign g (set_label l) w1;
          w3 = loadChildren h g cs w2;
          (rs, w4) = loadEntries h es w3
      in (g # rs, w4))"

text \<open>
  Modelled from the spec: writing the store back, which every mutation of the store does
  (missing with \<open>store.ts\<close>).
\<close>

definition persist :: "world \<Rightarrow> world" where
  "persist w = w\<lparr>storeFile := Some (toJson (entries w))\<rparr>"

text \<open>Modelled from the spec: \<open>FavoriteStore.all\<close> (missing with \<open>store.ts\<close>), the canonical list.\<close>

definition store_all :: "world \<Rightarrow> ref list" where
  "store_all w = favorites w"

text \<open>Modelled from the spec: \<open>FavoriteStore.groups\<close> (missing with \<open>store.ts\<close>), the groups of the list.\<close>

definition store_groups :: "world \<Rightarrow> ref list" where
  "store_groups w = filter (\<lambda>r. isGroup (heap w r)) (favorites w)"

text \<open>
  Modelled from the spec: \<open>FavoriteStore.add\<close> (missing with \<open>store.ts\<close>). The entry joins
  the list and the store is written back.
\<close>

definition store_add :: "ref \<Rightarrow> world \<Rightarrow> world" where
  "store_add r w = persist (w\<lparr>favorites := favorites w @ [r]\<rparr>)"

text \<open>
  Modelled from the spec: \<open>FavoriteStore.update\<close> (missing with \<open>store.ts\<close>). The objects
  were mutated in place by the caller; the store is written back.
\<close>

definition store_update :: "world \<Rightarrow> world" where
  "store_update w = persist w"

text \<open>
  Modelled from the spec: \<open>FavoriteStore.getParent\<close> (missing with \<open>store.ts\<close>). A favorite's
  parent reference, if present, names a group of the store.
\<close>

definition store_getParent :: "ref \<Rightarrow> world \<Rightarrow> ref option" where
  "store_getParent f w =
     (case parent (heap w f) of
        None \<Rightarrow> None
      | Some p \<Rightarrow> find (\<lambda>g. isGroup (heap w g) \<and> uuid (heap w g) = p) (favorites w))"

text \<open>
  Modelled from the spec: \<open>FavoriteStore.delete\<close> (missing with \<open>store.ts\<close>). A favorite of
  a group leaves its parent's children; any other entry leaves the list, a group together
  with the children it holds. The store is written back.
\<close>

definition store_delete :: "ref \<Rightarrow> world \<Rightarrow> world" where
  "store_delete r w =
     persist
       (case store_getParent r w of
          Some g \<Rightarrow> removeChild g r w
        | None \<Rightarrow> w\<lparr>favorites := removeAll r (favorites w)\<rparr>)"

text \<open>
  Modelled from the spec: \<open>FavoriteStore.refresh\<close> (missing with \<open>store.ts\<close>), the reload
  from disk. A malformed document makes it throw and leaves the in-memory state as it
  was; otherwise the list is replaced by the objects built from the document.
\<close>

definition store_refresh :: "host \<Rightarrow> world \<Rightarrow> error + world" where
  "store_refresh h w =
     (case storeFile w of
        None \<Rightarrow> Inl (Error ''Unable to parse the favorites file'')
      | Some j \<Rightarrow>
          (case fromJson j of
             None \<Rightarrow> Inl (Error ''Unable to parse the favorites file'')
           | Some es \<Rightarrow>
               (let (rs, w1) = loadEntries h es w in Inr (w1\<lparr>favorites := rs\<rparr>))))"

section \<open>The command handlers of manager.ts\<close>

text \<open>
  A handler takes the host's answers, its argument and the state, and returns the new
  state with the calls it made on the host. \<open>undefined\<close> arguments are \<open>None\<close>. The argument
  \<open>node\<close> of the two handlers that add the current file is read only through
  \<open>node && node.fsPath\<close>, so it is given as that path, \<open>None\<close> when the node is missing or
  has none.
\<close>

definition selectedElementPath :: "host \<Rightarrow> string option \<Rightarrow> string option" where
  "selectedElementPath h node =
     (if truthy node then node
      else if activeTextEditor h \<noteq> None then activeTextEditor h
      else None)"

definition promptGroupSelection :: "ref option list \<Rightarrow> world \<Rightarrow> ref list" where
  "promptGroupSelection exclusions w =
     filter
       (\<lambda>f. \<not> list_ex (\<lambda>x. case x of None \<Rightarrow> False
                                  | Some g \<Rightarrow> uuid (heap w g) = uuid (heap w f)) exclusions)
       (store_groups w)"

definition favoriteActiveFile :: "host \<Rightarrow> string option \<Rightarrow> world \<Rightarrow> world \<times> event list" where
  "favoriteActiveFile h node w =
     (case selectedElementPath h node of
        None \<Rightarrow> (w, [])
      | Some path \<Rightarrow>
          if path = [] then (w, [])
          else
            (case inputBox h of
               None \<Rightarrow> (w, [ShowInputBox ''Label'' (fileName h path)])
             | Some lab \<Rightarrow>
                 if lab = [] then (w, [ShowInputBox ''Label'' (fileName h path)])
                 else
                   (let (fav, w1) = new_Favorite h w;
                        w2 = assign fav (set_label lab) w1;
                        w3 = assign fav (set_resourcePath path) w2;
                        w4 = store_add fav w3
                    in (w4, [ShowInputBox ''Label'' (fileName h path),
                             ProviderRefresh None, Reveal fav]))))"

definition favoriteActiveFileToGroup ::
  "host \<Rightarrow> string option \<Rightarrow> world \<Rightarrow> world \<times> event list" where
  "favoriteActiveFileToGroup h node w =
     (case selectedElementPath h node of
        None \<Rightarrow> (w, [])
      | Some path \<Rightarrow>
          if path = [] then (w, [])
          else if store_groups w = [] then
            (w, [ShowWarningMessage ''No favorite groups found, please define a group first'' []])
          else
            (case showQuickPick h (store_groups w) of
               None \<Rightarrow> (w, [ShowQuickPick (store_groups w)])
             | Some grp \<Rightarrow>
                 (case inputBox h of
                    None \<Rightarrow>
                      (w, [ShowQuickPick (store_groups w),
                           ShowInputBox ''Label'' (fileName h path)])
                  | Some lab \<Rightarrow>
                      if lab = [] then
                        (w, [ShowQuickPick (store_groups w),
                             ShowInputBox ''Label'' (fileName h path)])
                      else
                        (let (fav, w1) = new_Favorite h w;
                             w2 = assign fav (set_label lab) w1;
                             w3 = assign fav (set_resourcePath path) w2;
                             w4 = addChild grp fav w3;
                             w5 = store_update w4
                         in (w5, [ShowQuickPick (store_groups w),
                                  ShowInputBox ''Label'' (fileName h path),
                                  ProviderRefresh (Some grp), Reveal fav])))))"

definition editFavorites :: "string \<Rightarrow> world \<Rightarrow> world \<times> event list" where
  "editFavorites storeUri w =
     (w, [ShowTextDocument storeUri,
          ShowWarningMessage ''Please be careful when manually editing your favorites''
            [''Understood'']])"

definition reloadFavorites :: "host \<Rightarrow> world \<Rightarrow> world \<times> event list" where
  "reloadFavorites h w =
     (case store_refresh h w of
        Inl err \<Rightarrow> (w, [ShowErrorMessage (message err) [''Ok'']])
      | Inr w1 \<Rightarrow> (w1, []))"

text \<open>
  \<open>Array.prototype.sort\<close> with a comparator is a stable sort. The comparator
  \<open>bookmarkableLabelComparator\<close> of \<open>model.ts\<close> is missing; the handler takes it as a
  parameter.
\<close>

fun insertBy :: "('a \<Rightarrow> 'a \<Rightarrow> int) \<Rightarrow> 'a \<Rightarrow> 'a list \<Rightarrow> 'a list" where
  "insertBy cmp x [] = [x]"
| "insertBy cmp x (y # ys) = (if cmp x y < 0 then x # y # ys else y # insertBy cmp x ys)"

definition sortBy :: "('a \<Rightarrow> 'a \<Rightarrow> int) \<Rightarrow> 'a list \<Rightarrow> 'a list" where
  "sortBy cmp xs = foldl (\<lambda>acc x. insertBy cmp x acc) [] xs"

text \<open>
  The \<open>flatMap\<close> of \<open>openFavorite\<close>: a group contributes its children, each with its
  description set to the group's label behind a folder icon, any other entry contributes
  itself. The state is threaded since the descriptions are written into the objects.
\<close>

fun describeChildren :: "string \<Rightarrow> ref list \<Rightarrow> world \<Rightarrow> world" where
  "describeChildren l [] w = w"
| "describeChildren l (c # cs) w =
     describeChildren l cs (assign c (set_description (Some (''  $(folder) '' @ l))) w)"

fun flatMapFavorites :: "ref list \<Rightarrow> world \<Rightarrow> ref list \<times> world" where
  "flatMapFavorites [] w = ([], w)"
| "flatMapFavorites (x # xs) w =
     (if isGroup (heap w x) then
        (let cs = children (heap w x);
             w1 = describeChildren (label (heap w x)) cs w;
             (rs, w2) = flatMapFavorites xs w1
         in (cs @ rs, w2))
      else
        (let (rs, w2) = flatMapFavorites xs w in (x # rs, w2)))"

definition openFavorite ::
  "(bookmarkable \<Rightarrow> bookmarkable \<Rightarrow> int) \<Rightarrow> host \<Rightarrow> world \<Rightarrow> world \<times> event list" where
  "openFavorite bookmarkableLabelComparator h w =
     (let (fs, w1) = flatMapFavorites (store_all w) w;
          favs = sortBy (\<lambda>a b. bookmarkableLabelComparator (heap w1 a) (heap w1 b)) fs
      in case showQuickPick h favs of
           None \<Rightarrow> (w1, [ShowQuickPick favs])
         | Some favorite \<Rightarrow>
             (w1, [ShowQuickPick favs, ShowTextDocument (resourcePath (heap w1 favorite))]))"

definition openGroup :: "host \<Rightarrow> ref option \<Rightarrow> world \<Rightarrow> world \<times> event list" where
  "openGroup h grp w =
     (let prompted = (case grp of None \<Rightarrow> True | Some g \<Rightarrow> \<not> hasChildren (heap w g));
          grp1 = (if prompted then showQuickPick h (promptGroupSelection [] w) else grp);
          asked = (if prompted then [ShowQuickPick (promptGroupSelection [] w)] else [])
      in case grp1 of
           None \<Rightarrow> (w, asked)
         | Some g \<Rightarrow>
             (w, asked @ map (\<lambda>f. ShowTextDocument (resourcePath (heap w f)))
                           (children (heap w g))))"

definition createGroup :: "host \<Rightarrow> world \<Rightarrow> world \<times> event list" where
  "createGroup h w =
     (case inputBox h of
        None \<Rightarrow> (w, [ShowInputBox ''New favorite group name :'' ''New group''])
      | Some lab \<Rightarrow>
          if lab = [] then (w, [ShowInputBox ''New favorite group name :'' ''New group''])
          else
            (let (grp, w1) = new_Group h w;
                 w2 = assign grp (set_label lab) w1;
                 w3 = store_add grp w2
             in (w3, [ShowInputBox ''New favorite group name :'' ''New group'',
                      ProviderRefresh None, Reveal grp])))"

fun decimal :: "nat \<Rightarrow> string" where
  "decimal n =
     (if n < 10 then [''0123456789'' ! n]
      else decimal (n div 10) @ [''0123456789'' ! (n mod 10)])"

declare decimal.simps [simp del]

definition removeMessage :: "bookmarkable \<Rightarrow> string" where
  "removeMessage b =
     (if isGroup b \<and> hasChildren b then
        ''Remove the '' @ [CHR 0x27] @ label b @ [CHR 0x27]
          @ '' group and all its favorites - '' @ decimal (length (children b))
          @ '' favorite(s) ?''
      else ''Remove '' @ [CHR 0x27] @ label b @ [CHR 0x27] @ '' from your favorites ?'')"

definition removeFavorite :: "host \<Rightarrow> ref option \<Rightarrow> world \<Rightarrow> world \<times> event list" where
  "removeFavorite h favorite w =
     (case favorite of
        None \<Rightarrow> (w, [])
      | Some fav \<Rightarrow>
          if warningChoice h = Some ''Yes'' then
            (store_delete fav w,
             [ShowWarningMessage (removeMessage (heap w fav)) [''Yes'', ''No''],
              ProviderRefresh None])
          else (w, [ShowWarningMessage (removeMessage (heap w fav)) [''Yes'', ''No'']]))"

definition moveFavorite :: "host \<Rightarrow> ref option \<Rightarrow> world \<Rightarrow> world \<times> event list" where
  "moveFavorite h favorite w =
     (case favorite of
        None \<Rightarrow> (w, [])
      | Some fav \<Rightarrow>
          (let parent = store_getParent fav w;
               offered = promptGroupSelection [parent] w
           in case showQuickPick h offered of
                None \<Rightarrow> (w, [ShowQuickPick offered])
              | Some grp \<Rightarrow>
                  (let w1 = (case parent of
                               Some p \<Rightarrow> removeChild p fav w
                             | None \<Rightarrow> store_delete fav w);
                       w2 = addChild grp fav w1;
                       w3 = store_update w2
                   in (w3, [ShowQuickPick offered, ProviderRefresh None, Reveal fav]))))"

definition renameFavorite :: "host \<Rightarrow> ref option \<Rightarrow> world \<Rightarrow> world \<times> event list" where
  "renameFavorite h bookmarkable w =
     (case bookmarkable of
        None \<Rightarrow> (w, [])
      | Some bk \<Rightarrow>
          (case inputBox h of
             None \<Rightarrow> (w, [ShowInputBox ''Rename to'' (label (heap w bk))])
           | Some lab \<Rightarrow>
               if lab = [] then (w, [ShowInputBox ''Rename to'' (label (heap w bk))])
               else
                 (let w1 = assign bk (set_label lab) w;
                      w2 = store_update w1
                  in (w2, [ShowInputBox ''Rename to'' (label (heap w bk)),
                           ProviderRefresh (Some bk), Reveal bk]))))"

definition openResource :: "string \<Rightarrow> world \<Rightarrow> world \<times> event list" where
  "openResource resource w = (w, [ShowTextDocument resource])"

section \<open>The command handlers of favoriteManager.ts\<close>

text \<open>
  The older manager, for the two handlers the properties below refer to. Its store is
  missing like the newer one and is given the same model. A JavaScript array is truthy
  whatever its length, which is what the test \<open>!groups\<close> reads.
\<close>

definition arrayTruthy :: "'a list \<Rightarrow> bool" where
  "arrayTruthy xs = True"

definition favoriteManager_favoriteActiveFileToGroup ::
  "host \<Rightarrow> string option \<Rightarrow> world \<Rightarrow> world \<times> event list" where
  "favoriteManager_favoriteActiveFileToGroup h node w =
     (case selectedElementPath h node of
        None \<Rightarrow> (w, [])
      | Some path \<Rightarrow>
          if path = [] then (w, [])
          else if \<not> arrayTruthy (store_groups w) then
            (w, [ShowWarningMessage ''No favorite groups found, please define a group first'' []])
          else
            (case showQuickPick h (store_groups w) of
               None \<Rightarrow> (w, [ShowQuickPick (store_groups w)])
             | Some selection \<Rightarrow>
                 (case inputBox h of
                    None \<Rightarrow> (w, [ShowQuickPick (store_groups w), ShowInputBox ''Label'' path])
                  | Some v \<Rightarrow>
                      if v = [] then
                        (w, [ShowQuickPick (store_groups w), ShowInputBox ''Label'' path])
                      else
                        (let (fav, w1) = new_Favorite h w;
                             w2 = assign fav (set_label v) w1;
                             w3 = assign fav (set_resourcePath path) w2;
                             w4 = assign selection
                                    (set_children (children (heap w3 selection) @ [fav])) w3;
                             w5 = store_update w4;
                             w6 = assign fav (set_parent (Some (uuid (heap w5 selection)))) w5
                         in (w6, [ShowQuickPick (store_groups w), ShowInputBox ''Label'' path,
                                  Reveal fav])))))"

definition favoriteManager_renameFavorite ::
  "host \<Rightarrow> ref option \<Rightarrow> world \<Rightarrow> world \<times> event list" where
  "favoriteManager_renameFavorite h favorite w =
     (case favorite of
        None \<Rightarrow> (w, [])
      | Some fav \<Rightarrow>
          (case inputBox h of
             None \<Rightarrow> (w, [ShowInputBox ''Rename to'' (label (heap w fav))])
           | Some v \<Rightarrow>
               if v = [] then (w, [ShowInputBox ''Rename to'' (label (heap w fav))])
               else
                 (let w1 = assign fav (set_label v) w;
                      w2 = store_update w1
                  in (w2, [ShowInputBox ''Rename to'' (label (heap w fav))]))))"

section \<open>Predicates on states\<close>

text \<open>The state with every description erased: what is left is what the store persists and shows as a tree.\<close>

definition forget_descriptions :: "world \<Rightarrow> world" where
  "forget_descriptions w = w\<lparr>heap := (\<lambda>r. set_description None (heap w r))\<rparr>"

text \<open>A persisted document is malformed when it is not JSON or does not read back as an entity list.\<close>

definition malformed :: "json option \<Rightarrow> bool" where
  "malformed d = (case d of None \<Rightarrow> True | Some j \<Rightarrow> fromJson j = None)"

text \<open>The objects of the store: the top-level entries, then the children of the groups.\<close>

definition entities :: "world \<Rightarrow> ref list" where
  "entities w = favorites w @ concat (map (\<lambda>g. children (heap w g)) (store_groups w))"





text \<open>
  The invariants of the data model: an object occurs once in the store (at the top level
  or among the children of one group), the groups' identifiers are unique, the children
  of a group are favorites whose parent reference names that group, and a top-level
  favorite has no parent reference.
\<close>

definition well_formed :: "world \<Rightarrow> bool" where
  "well_formed w =
     (distinct (entities w) \<and>
      distinct (map (\<lambda>g. uuid (heap w g)) (store_groups w)) \<and>
      list_all (\<lambda>g. list_all (\<lambda>c. isFavorite (heap w c) \<and>
                                   parent (heap w c) = Some (uuid (heap w g)))
                       (children (heap w g)))
        (store_groups w) \<and>
      list_all (\<lambda>f. isGroup (heap w f) \<or> parent (heap w f) = None) (favorites w))"

section \<open>Example states\<close>

text \<open>
  A store with two groups and two favorites: the group Work at address 0 holds the
  favorite notes (address 2), the group Home at address 1 is empty, and the favorite todo
  (address 3) is a top-level entry.
\<close>

definition example_heap :: "ref \<Rightarrow> bookmarkable" where
  "example_heap =
     (\<lambda>r. Favorite [] [] [] None None)
       (0 := Group ''g-work'' ''Work'' [2],
        1 := Group ''g-home'' ''Home'' [],
        2 := Favorite ''f-notes'' ''notes'' ''/src/notes.md'' (Some ''g-work'') None,
        3 := Favorite ''f-todo'' ''todo'' ''/src/todo.md'' None None)"

definition example_world :: world where
  "example_world =
     \<lparr>heap = example_heap, fresh = 4, favorites = [0, 1, 3],
      storeFile = Some (JArray [])\<rparr>"

text \<open>The same store after the persisted file was edited by hand into something that is no entity list.\<close>

definition broken_world :: world where
  "broken_world = example_world\<lparr>storeFile := Some (JObject [(''favorites'', JNull)])\<rparr>"


text \<open>A store without any entry.\<close>

definition empty_world :: world where
  "empty_world =
     \<lparr>heap = (\<lambda>r. Favorite [] [] [] None None), fresh = 0, favorites = [],
      storeFile = Some (JArray [])\<rparr>"

text \<open>
  A host with no active editor whose user dismisses every prompt, and one with an active
  editor whose user types a label, picks the first item offered and confirms.
\<close>

definition idle_host :: host where
  "idle_host =
     \<lparr>activeTextEditor = None, inputBox = None, quickPick = None, warningChoice = None,
      fileName = (\<lambda>p. p), uuidv4 = (\<lambda>r. ''uuid-'' @ decimal r)\<rparr>"

definition busy_host :: host where
  "busy_host =
     \<lparr>activeTextEditor = Some ''/src/main.ts'', inputBox = Some ''main'',
      quickPick = Some 0, warningChoice = Some ''Yes'',
      fileName = (\<lambda>p. p), uuidv4 = (\<lambda>r. ''uuid-'' @ decimal r)\<rparr>"

section \<open>Basic facts about objects and states\<close>

lemma set_label_sel [simp]:
  "uuid (set_label l b) = uuid b" "label (set_label l b) = l"
  "resourcePath (set_label l b) = resourcePath b" "parent (set_label l b) = parent b"
  "description (set_label l b) = description b" "children (set_label l b) = children b"
  "isGroup (set_label l b) = isGroup b" "isFavorite (set_label l b) = isFavorite b"
  by (cases b; simp)+

lemma set_resourcePath_sel [simp]:
  "uuid (set_resourcePath p b) = uuid b" "label (set_resourcePath p b) = label b"
  "resourcePath (set_resourcePath p b) = (if isFavorite b then p else [])"
  "parent (set_resourcePath p b) = parent b"
  "description (set_resourcePath p b) = description b"
  "children (set_resourcePath p b) = children b"
  "isGroup (set_resourcePath p b) = isGroup b"
  "isFavorite (set_resourcePath p b) = isFavorite b"
  by (cases b; simp)+

lemma set_parent_sel [simp]:
  "uuid (set_parent g b) = uuid b" "label (set_parent g b) = label b"
  "resourcePath (set_parent g b) = resourcePath b"
  "parent (set_parent g b) = (if isFavorite b then g else None)"
  "description (set_parent g b) = description b" "children (set_parent g b) = children b"
  "isGroup (set_parent g b) = isGroup b" "isFavorite (set_parent g b) = isFavorite b"
  by (cases b; simp)+

lemma set_description_sel [simp]:
  "uuid (set_description d b) = uuid b" "label (set_description d b) = label b"
  "resourcePath (set_description d b) = resourcePath b"
  "parent (set_description d b) = parent b"
  "description (set_description d b) = (if isFavorite b then d else None)"
  "children (set_description d b) = children b"
  "isGroup (set_description d b) = isGroup b"
  "isFavorite (set_description d b) = isFavorite b"
  by (cases b; simp)+

lemma set_children_sel [simp]:
  "uuid (set_children cs b) = uuid b" "label (set_children cs b) = label b"
  "resourcePath (set_children cs b) = resourcePath b"
  "parent (set_children cs b) = parent b"
  "description (set_children cs b) = description b"
  "children (set_children cs b) = (if isGroup b then cs else [])"
  "isGroup (set_children cs b) = isGroup b" "isFavorite (set_children cs b) = isFavorite b"
  by (cases b; simp)+

lemma assign_fields [simp]:
  "heap (assign r f w) = (heap w)(r := f (heap w r))"
  "favorites (assign r f w) = favorites w"
  "fresh (assign r f w) = fresh w"
  "storeFile (assign r f w) = storeFile w"
  by (simp_all add: assign_def)

lemma persist_fields [simp]:
  "heap (persist w) = heap w" "favorites (persist w) = favorites w"
  "fresh (persist w) = fresh w"
  by (simp_all add: persist_def)

lemma promptGroupSelection_no_exclusions [simp]: "promptGroupSelection [] w = store_groups w"
  by (simp add: promptGroupSelection_def)

lemma example_heap_at [simp]:
  "example_heap 0 = Group ''g-work'' ''Work'' [2]"
  "example_heap (Suc 0) = Group ''g-home'' ''Home'' []"
  "example_heap 2 = Favorite ''f-notes'' ''notes'' ''/src/notes.md'' (Some ''g-work'') None"
  "example_heap 3 = Favorite ''f-todo'' ''todo'' ''/src/todo.md'' None None"
  by (simp_all add: example_heap_def)

lemma example_world_fields [simp]:
  "heap example_world = example_heap" "favorites example_world = [0, 1, 3]"
  "fresh example_world = 4" "storeFile example_world = Some (JArray [])"
  by (simp_all add: example_world_def)

lemma broken_world_fields [simp]:
  "heap broken_world = example_heap" "favorites broken_world = [0, 1, 3]"
  "fresh broken_world = 4" "storeFile broken_world = Some (JObject [(''favorites'', JNull)])"
  by (simp_all add: broken_world_def)

lemma example_groups [simp]:
  "store_groups example_world = [0, 1]" "store_groups broken_world = [0, 1]"
  by (simp_all add: store_groups_def)

lemma idle_host_fields [simp]:
  "activeTextEditor idle_host = None" "inputBox idle_host = None"
  "quickPick idle_host = None" "warningChoice idle_host = None"
  by (simp_all add: idle_host_def)

lemma busy_host_fields [simp]:
  "activeTextEditor busy_host = Some ''/src/main.ts''" "inputBox busy_host = Some ''main''"
  "quickPick busy_host = Some 0" "warningChoice busy_host = Some ''Yes''"
  by (simp_all add: busy_host_def)

section \<open>Missing preconditions\<close>

text \<open>
  C8, as the code has it. The two handlers that add the current file first resolve a path
  from the selected element or the active editor. When no element is selected and no
  editor is active they return at once: the store is unchanged and nothing is reported to
  the user, no warning either.
\<close>

theorem no_selection_returns_silently:
  "\<not> truthy node \<Longrightarrow> activeTextEditor h = None \<Longrightarrow>
     favoriteActiveFile h node w = (w, []) \<and> favoriteActiveFileToGroup h node w = (w, [])"
  by (simp add: favoriteActiveFile_def favoriteActiveFileToGroup_def selectedElementPath_def)

theorem no_selection_returns_silently_witness:
  "\<not> truthy None \<and> activeTextEditor idle_host = None \<and>
   favoriteActiveFile idle_host None example_world = (example_world, []) \<and>
   favoriteActiveFileToGroup idle_host None example_world = (example_world, [])"
  using no_selection_returns_silently [of None idle_host example_world]
  by (simp add: idle_host_def)

text \<open>
  C8 as stated fails: with no selected element and no active editor, adding the current
  file shows no warning; the handler makes no call on the host at all.
\<close>

theorem no_selection_warning_counterexample:
  "\<not> truthy None \<and> activeTextEditor idle_host = None \<and>
   snd (favoriteActiveFile idle_host None example_world) = []"
  by (simp add: favoriteActiveFile_def selectedElementPath_def idle_host_def)

text \<open>
  C4, as the code has it. When the store has no group, adding the current file to a group
  leaves the store unchanged; the warning is shown when a path could be resolved from the
  selected element or the active editor, and nothing is shown otherwise, since the handler
  resolves the path before it looks for groups.
\<close>

theorem no_groups_warns_when_path_resolved:
  "store_groups w = [] \<Longrightarrow>
     fst (favoriteActiveFileToGroup h node w) = w \<and>
     snd (favoriteActiveFileToGroup h node w) =
       (if truthy (selectedElementPath h node)
        then [ShowWarningMessage ''No favorite groups found, please define a group first'' []]
        else [])"
  by (auto simp: favoriteActiveFileToGroup_def split: option.splits)

theorem no_groups_warns_when_path_resolved_witness:
  "store_groups empty_world = [] \<and>
   fst (favoriteActiveFileToGroup busy_host None empty_world) = empty_world \<and>
   snd (favoriteActiveFileToGroup busy_host None empty_world) =
     [ShowWarningMessage ''No favorite groups found, please define a group first'' []]"
  using no_groups_warns_when_path_resolved [of empty_world busy_host None]
  by (simp add: store_groups_def empty_world_def selectedElementPath_def busy_host_def)

text \<open>
  C4 as stated fails: in a store without groups, a run of the handler with no selected
  element and no active editor reports no warning.
\<close>

theorem no_groups_warning_counterexample:
  "store_groups empty_world = [] \<and>
   snd (favoriteActiveFileToGroup idle_host None empty_world) = []"
  by (simp add: favoriteActiveFileToGroup_def selectedElementPath_def idle_host_def
      store_groups_def empty_world_def)

text \<open>
  The older manager tests \<open>!groups\<close> only, which no array satisfies: with a path at hand
  and no group in the store it shows an empty quick pick instead of the warning. The
  newer manager added the test of the length.
\<close>

lemma favoriteManager_no_groups_shows_quick_pick:
  assumes "store_groups w = []" and "truthy (selectedElementPath h node)"
  shows "favoriteManager_favoriteActiveFileToGroup h node w = (w, [ShowQuickPick []])"
proof -
  obtain path where "selectedElementPath h node = Some path" "path \<noteq> []"
    using assms(2) by (cases "selectedElementPath h node") auto
  then show ?thesis
    using assms(1)
    by (simp add: favoriteManager_favoriteActiveFileToGroup_def arrayTruthy_def
        showQuickPick_def split: option.splits)
qed

section \<open>Renaming\<close>

text \<open>
  C3. When the user types a non-empty new label, renaming an entry changes the label of
  that object and nothing else in memory: its identifier, its children, its resource path
  and its parent reference are the same, every other object is the same, and so is the
  store's list. Both managers behave alike.
\<close>

theorem rename_changes_only_label:
  assumes "inputBox h = Some lab" and "lab \<noteq> []"
  shows "(let w1 = fst (renameFavorite h (Some bk) w) in
            label (heap w1 bk) = lab \<and> uuid (heap w1 bk) = uuid (heap w bk) \<and>
            children (heap w1 bk) = children (heap w bk) \<and>
            resourcePath (heap w1 bk) = resourcePath (heap w bk) \<and>
            parent (heap w1 bk) = parent (heap w bk) \<and>
            isGroup (heap w1 bk) = isGroup (heap w bk) \<and>
            (\<forall>r. r \<noteq> bk \<longrightarrow> heap w1 r = heap w r) \<and>
            favorites w1 = favorites w) \<and>
         (let w1 = fst (favoriteManager_renameFavorite h (Some bk) w) in
            label (heap w1 bk) = lab \<and> uuid (heap w1 bk) = uuid (heap w bk) \<and>
            children (heap w1 bk) = children (heap w bk) \<and>
            resourcePath (heap w1 bk) = resourcePath (heap w bk) \<and>
            parent (heap w1 bk) = parent (heap w bk) \<and>
            isGroup (heap w1 bk) = isGroup (heap w bk) \<and>
            (\<forall>r. r \<noteq> bk \<longrightarrow> heap w1 r = heap w r) \<and>
            favorites w1 = favorites w)"
  using assms
  by (simp add: renameFavorite_def favoriteManager_renameFavorite_def store_update_def)

theorem rename_changes_only_label_witness:
  "inputBox busy_host = Some ''main'' \<and> ''main'' \<noteq> [] \<and>
   heap (fst (renameFavorite busy_host (Some 0) example_world)) 0 = Group ''g-work'' ''main'' [2] \<and>
   heap (fst (renameFavorite busy_host (Some 0) example_world)) 2 = heap example_world 2 \<and>
   favorites (fst (renameFavorite busy_host (Some 0) example_world)) = [0, 1, 3]"
proof -
  let ?w = "fst (renameFavorite busy_host (Some 0) example_world)"
  have h: "inputBox busy_host = Some ''main''" "''main'' \<noteq> []" by simp_all
  have "label (heap ?w 0) = ''main''" "uuid (heap ?w 0) = ''g-work''"
    "children (heap ?w 0) = [2]" "isGroup (heap ?w 0)"
    "heap ?w 2 = heap example_world 2" "favorites ?w = [0, 1, 3]"
    using rename_changes_only_label [OF h, of 0 example_world] by (simp_all add: Let_def)
  then show ?thesis by (cases "heap ?w 0") simp_all
qed

section \<open>Cancelled prompts\<close>

lemma forget_assign_description [simp]:
  "forget_descriptions (assign c (set_description d) w) = forget_descriptions w"
proof -
  have "set_description None (set_description d b) = set_description None b" for b
    by (cases b) simp_all
  then show ?thesis by (auto simp: forget_descriptions_def assign_def fun_eq_iff)
qed

lemma forget_describeChildren [simp]:
  "forget_descriptions (describeChildren l cs w) = forget_descriptions w"
  by (induction cs arbitrary: w) simp_all

lemma forget_flatMapFavorites:
  "flatMapFavorites xs w = (rs, w1) \<Longrightarrow> forget_descriptions w1 = forget_descriptions w"
proof (induction xs arbitrary: w rs w1)
  case Nil
  then show ?case by simp
next
  case (Cons x xs)
  show ?case
  proof (cases "isGroup (heap w x)")
    case True
    let ?w = "describeChildren (label (heap w x)) (children (heap w x)) w"
    obtain rs' where "flatMapFavorites xs ?w = (rs', w1)"
      using Cons.prems True by (auto simp: Let_def split: prod.splits)
    then have "forget_descriptions w1 = forget_descriptions ?w" by (rule Cons.IH)
    then show ?thesis by simp
  next
    case False
    obtain rs' where "flatMapFavorites xs w = (rs', w1)"
      using Cons.prems False by (auto simp: Let_def split: prod.splits)
    then show ?thesis by (rule Cons.IH)
  qed
qed

lemma openFavorite_forgets:
  "forget_descriptions (fst (openFavorite cmp h w)) = forget_descriptions w"
proof -
  obtain fs w1 where f: "flatMapFavorites (store_all w) w = (fs, w1)"
    by (cases "flatMapFavorites (store_all w) w")
  then have "forget_descriptions w1 = forget_descriptions w"
    by (rule forget_flatMapFavorites)
  then show ?thesis
    by (simp add: openFavorite_def f Let_def split: option.splits)
qed

lemma favoriteActiveFile_cancelled:
  "\<not> truthy (inputBox h) \<Longrightarrow> fst (favoriteActiveFile h node w) = w"
  by (auto simp: favoriteActiveFile_def split: option.splits)

lemma favoriteActiveFileToGroup_cancelled:
  "quickPick h = None \<or> \<not> truthy (inputBox h) \<Longrightarrow> fst (favoriteActiveFileToGroup h node w) = w"
  by (auto simp: favoriteActiveFileToGroup_def showQuickPick_def split: option.splits)

lemma createGroup_cancelled: "\<not> truthy (inputBox h) \<Longrightarrow> fst (createGroup h w) = w"
  by (auto simp: createGroup_def split: option.splits)

lemma removeFavorite_cancelled:
  "warningChoice h \<noteq> Some ''Yes'' \<Longrightarrow> fst (removeFavorite h bk w) = w"
  by (simp add: removeFavorite_def split: option.splits)

lemma moveFavorite_cancelled: "quickPick h = None \<Longrightarrow> fst (moveFavorite h bk w) = w"
  by (simp add: moveFavorite_def showQuickPick_def Let_def split: option.splits)

lemma renameFavorite_cancelled: "\<not> truthy (inputBox h) \<Longrightarrow> fst (renameFavorite h bk w) = w"
  by (auto simp: renameFavorite_def split: option.splits)

lemma openGroup_reads_only: "fst (openGroup h grp w) = w"
  by (simp add: openGroup_def Let_def split: option.splits)

lemma reloadFavorites_failed:
  "ShowErrorMessage m bs \<in> set (snd (reloadFavorites h w)) \<Longrightarrow> fst (reloadFavorites h w) = w"
  by (auto simp: reloadFavorites_def split: sum.splits)

text \<open>
  C7. A handler whose prompt is dismissed (the prompt resolves to no value; an empty
  input and any answer but Yes to the removal question count as well) returns with the
  state it started from: nothing is added, removed, renamed or moved, and nothing is
  written back. The two handlers that open files never change the entries either:
  \<open>openGroup\<close> leaves the state as it is, and \<open>openFavorite\<close>, which writes the group's
  label into the description of each grouped favorite before it asks, leaves everything
  but these descriptions as it is. \<open>editFavorites\<close> and \<open>openResource\<close> only show a
  document, and \<open>reloadFavorites\<close> shows its only message when the reload has failed and
  the state is the one it started from.
\<close>

theorem cancelled_prompt_leaves_store:
  "(\<not> truthy (inputBox h) \<longrightarrow> fst (favoriteActiveFile h node w) = w) \<and>
   (quickPick h = None \<or> \<not> truthy (inputBox h) \<longrightarrow>
      fst (favoriteActiveFileToGroup h node w) = w) \<and>
   (\<not> truthy (inputBox h) \<longrightarrow> fst (createGroup h w) = w) \<and>
   (warningChoice h \<noteq> Some ''Yes'' \<longrightarrow> fst (removeFavorite h bk w) = w) \<and>
   (quickPick h = None \<longrightarrow> fst (moveFavorite h bk w) = w) \<and>
   (\<not> truthy (inputBox h) \<longrightarrow> fst (renameFavorite h bk w) = w) \<and>
   (quickPick h = None \<longrightarrow>
      forget_descriptions (fst (openFavorite cmp h w)) = forget_descriptions w) \<and>
   (quickPick h = None \<longrightarrow> fst (openGroup h grp w) = w) \<and>
   fst (editFavorites uri w) = w \<and> fst (openResource uri w) = w \<and>
   ((\<exists>m bs. ShowErrorMessage m bs \<in> set (snd (reloadFavorites h w))) \<longrightarrow>
      fst (reloadFavorites h w) = w)"
proof -
  have "fst (editFavorites uri w) = w" "fst (openResource uri w) = w"
    by (simp_all add: editFavorites_def openResource_def)
  then show ?thesis
    using favoriteActiveFile_cancelled [of h node w]
      favoriteActiveFileToGroup_cancelled [of h node w] createGroup_cancelled [of h w]
      removeFavorite_cancelled [of h bk w] moveFavorite_cancelled [of h bk w]
      renameFavorite_cancelled [of h bk w] openFavorite_forgets [of cmp h w]
      openGroup_reads_only [of h grp w] reloadFavorites_failed [of _ _ h w]
    by blast
qed

theorem cancelled_prompt_leaves_store_witness:
  "\<not> truthy (inputBox idle_host) \<and> quickPick idle_host = None \<and>
   warningChoice idle_host \<noteq> Some ''Yes'' \<and>
   ShowErrorMessage ''Unable to parse the favorites file'' [''Ok'']
     \<in> set (snd (reloadFavorites idle_host broken_world)) \<and>
   fst (favoriteActiveFile idle_host (Some ''/src/a.ts'') broken_world) = broken_world \<and>
   fst (favoriteActiveFileToGroup idle_host (Some ''/src/a.ts'') broken_world) = broken_world \<and>
   fst (createGroup idle_host broken_world) = broken_world \<and>
   fst (removeFavorite idle_host (Some 0) broken_world) = broken_world \<and>
   fst (moveFavorite idle_host (Some 2) broken_world) = broken_world \<and>
   fst (renameFavorite idle_host (Some 2) broken_world) = broken_world \<and>
   forget_descriptions (fst (openFavorite (\<lambda>a b. 0) idle_host broken_world))
     = forget_descriptions broken_world \<and>
   fst (openGroup idle_host None broken_world) = broken_world \<and>
   fst (reloadFavorites idle_host broken_world) = broken_world"
proof -
  have e: "ShowErrorMessage ''Unable to parse the favorites file'' [''Ok'']
             \<in> set (snd (reloadFavorites idle_host broken_world))"
    by (simp add: reloadFavorites_def store_refresh_def)
  have a: "\<not> truthy (inputBox idle_host)" "quickPick idle_host = None"
    "warningChoice idle_host \<noteq> Some ''Yes''"
    by simp_all
  show ?thesis
    using e a
      cancelled_prompt_leaves_store
        [of idle_host "Some ''/src/a.ts''" broken_world "Some 0" "\<lambda>a b. 0" None]
      cancelled_prompt_leaves_store
        [of idle_host "Some ''/src/a.ts''" broken_world "Some 2" "\<lambda>a b. 0" None]
    by blast
qed

section \<open>Opening a group\<close>

text \<open>
  C10. When \<open>openGroup\<close> is called without a group, or with a group that has no children,
  it asks the user to pick one of the store's groups and opens the children of the group
  picked (nothing if the prompt is dismissed). Only when it is called with a group that
  has at least one child does it open, without asking, exactly that group's children, in
  their order.
\<close>

theorem openGroup_prompts_unless_children:
  "(grp = None \<or> (\<exists>g. grp = Some g \<and> \<not> hasChildren (heap w g)) \<longrightarrow>
      openGroup h grp w =
        (w, ShowQuickPick (store_groups w) #
            (case showQuickPick h (store_groups w) of
               None \<Rightarrow> []
             | Some p \<Rightarrow> map (\<lambda>f. ShowTextDocument (resourcePath (heap w f)))
                           (children (heap w p))))) \<and>
   (\<forall>g. grp = Some g \<and> hasChildren (heap w g) \<longrightarrow>
      openGroup h grp w =
        (w, map (\<lambda>f. ShowTextDocument (resourcePath (heap w f))) (children (heap w g))))"
  by (auto simp: openGroup_def split: option.splits)

theorem openGroup_prompts_unless_children_witness:
  "\<not> hasChildren (heap example_world 1) \<and> hasChildren (heap example_world 0) \<and>
   openGroup busy_host (Some 1) example_world =
     (example_world, [ShowQuickPick [0, 1], ShowTextDocument ''/src/notes.md'']) \<and>
   openGroup idle_host None example_world = (example_world, [ShowQuickPick [0, 1]]) \<and>
   openGroup idle_host (Some 0) example_world =
     (example_world, [ShowTextDocument ''/src/notes.md''])"
proof -
  have c: "\<not> hasChildren (heap example_world 1)" "hasChildren (heap example_world 0)"
    by (simp_all add: hasChildren_def)
  have "openGroup busy_host (Some 1) example_world =
     (example_world, [ShowQuickPick [0, 1], ShowTextDocument ''/src/notes.md''])"
    using c openGroup_prompts_unless_children [of "Some 1" example_world busy_host]
    by (simp add: showQuickPick_def)
  moreover have "openGroup idle_host None example_world = (example_world, [ShowQuickPick [0, 1]])"
    using openGroup_prompts_unless_children [of None example_world idle_host]
    by (simp add: showQuickPick_def)
  moreover have "openGroup idle_host (Some 0) example_world =
     (example_world, [ShowTextDocument ''/src/notes.md''])"
    using c openGroup_prompts_unless_children [of "Some 0" example_world idle_host]
    by simp
  ultimately show ?thesis using c by simp
qed

section \<open>Reloading from disk\<close>

text \<open>
  C6. When the persisted document is malformed, \<open>reloadFavorites\<close> catches the error that
  the store's reload throws, shows it to the user as an error message, and returns
  normally with the in-memory state exactly as it was.
\<close>

theorem reload_of_malformed_document:
  "malformed (storeFile w) \<Longrightarrow>
     \<exists>msg. reloadFavorites h w = (w, [ShowErrorMessage msg [''Ok'']])"
  by (auto simp: malformed_def reloadFavorites_def store_refresh_def split: option.splits)

theorem reload_of_malformed_document_witness:
  "malformed (storeFile broken_world) \<and>
   (\<exists>msg. reloadFavorites idle_host broken_world = (broken_world, [ShowErrorMessage msg [''Ok'']]))"
proof -
  have m: "malformed (storeFile broken_world)" by (simp add: malformed_def)
  show ?thesis using m reload_of_malformed_document [OF m, of idle_host] by simp
qed

section \<open>Labels\<close>

lemma isFavorite_iff [simp]: "isFavorite b = (\<not> isGroup b)"
  by (cases b) simp_all

lemma showQuickPick_member: "showQuickPick h xs = Some x \<Longrightarrow> x \<in> set xs"
  by (auto simp: showQuickPick_def split: option.splits if_splits)

lemma set_store_groups [simp]:
  "set (store_groups w) = {r \<in> set (favorites w). isGroup (heap w r)}"
  by (auto simp: store_groups_def)


lemma set_entities:
  "set (entities w) =
     set (favorites w) \<union> {c. \<exists>g \<in> set (favorites w). isGroup (heap w g) \<and> c \<in> set (children (heap w g))}"
  by (auto simp: entities_def)


lemma store_getParent_group [simp]: "isGroup (heap w g) \<Longrightarrow> store_getParent g w = None"
  by (cases "heap w g") (simp_all add: store_getParent_def)

lemma store_getParent_no_parent [simp]: "parent (heap w f) = None \<Longrightarrow> store_getParent f w = None"
  by (simp add: store_getParent_def)











lemma example_world_entities [simp]: "entities example_world = [0, 1, 3, 2]"
  by (simp add: entities_def)



section \<open>Well-formed stores\<close>

lemma distinct_concat_map_disjoint:
  "distinct (concat (map f xs)) \<Longrightarrow> x \<in> set xs \<Longrightarrow> y \<in> set xs \<Longrightarrow> x \<noteq> y \<Longrightarrow>
     set (f x) \<inter> set (f y) = {}"
  by (induction xs) auto

lemma wf_child_not_top:
  "well_formed w \<Longrightarrow> g \<in> set (favorites w) \<Longrightarrow> isGroup (heap w g) \<Longrightarrow>
     c \<in> set (children (heap w g)) \<Longrightarrow> c \<notin> set (favorites w)"
  by (auto simp: well_formed_def entities_def)

lemma wf_child_unique:
  assumes "well_formed w" "g \<in> set (favorites w)" "isGroup (heap w g)"
    "g' \<in> set (favorites w)" "isGroup (heap w g')"
    "c \<in> set (children (heap w g))" "c \<in> set (children (heap w g'))"
  shows "g = g'"
proof (rule ccontr)
  assume "g \<noteq> g'"
  moreover have "distinct (concat (map (\<lambda>g. children (heap w g)) (store_groups w)))"
    using assms(1) by (simp add: well_formed_def entities_def)
  moreover have "g \<in> set (store_groups w)" "g' \<in> set (store_groups w)"
    using assms by simp_all
  ultimately have "set (children (heap w g)) \<inter> set (children (heap w g')) = {}"
    by (rule_tac distinct_concat_map_disjoint)
  then show False using assms(6,7) by auto
qed

lemma wf_child:
  "well_formed w \<Longrightarrow> g \<in> set (favorites w) \<Longrightarrow> isGroup (heap w g) \<Longrightarrow>
     c \<in> set (children (heap w g)) \<Longrightarrow>
     isFavorite (heap w c) \<and> parent (heap w c) = Some (uuid (heap w g))"
  by (auto simp: well_formed_def list_all_iff)

lemma wf_top:
  "well_formed w \<Longrightarrow> f \<in> set (favorites w) \<Longrightarrow> isFavorite (heap w f) \<Longrightarrow> parent (heap w f) = None"
  by (auto simp: well_formed_def list_all_iff)

lemma wf_uuid:
  "well_formed w \<Longrightarrow> g \<in> set (favorites w) \<Longrightarrow> isGroup (heap w g) \<Longrightarrow>
     g' \<in> set (favorites w) \<Longrightarrow> isGroup (heap w g') \<Longrightarrow>
     uuid (heap w g) = uuid (heap w g') \<Longrightarrow> g = g'"
  by (auto simp: well_formed_def distinct_map inj_on_def)

lemma find_unique:
  assumes "x \<in> set xs" "P x" "\<forall>y \<in> set xs. P y \<longrightarrow> y = x"
  shows "find P xs = Some x"
  using assms
proof (induction xs)
  case Nil
  then show ?case by simp
next
  case (Cons a xs)
  show ?case
  proof (cases "P a")
    case True
    have "a = x" using Cons.prems(3) True by (meson list.set_intros(1))
    then show ?thesis using True by simp
  next
    case False
    have "x \<noteq> a" using False Cons.prems(2) by blast
    then have m: "x \<in> set xs" using Cons.prems(1) by simp
    have u: "\<forall>y \<in> set xs. P y \<longrightarrow> y = x"
      using Cons.prems(3) by (meson list.set_intros(2))
    have "find P xs = Some x" by (rule Cons.IH [OF m Cons.prems(2) u])
    then show ?thesis using False by simp
  qed
qed

lemma wf_getParent:
  assumes "well_formed w" "g \<in> set (favorites w)" "isGroup (heap w g)"
    "c \<in> set (children (heap w g))"
  shows "store_getParent c w = Some g"
proof -
  have p: "parent (heap w c) = Some (uuid (heap w g))" using wf_child [OF assms] by simp
  have "find (\<lambda>x. isGroup (heap w x) \<and> uuid (heap w x) = uuid (heap w g)) (favorites w) = Some g"
  proof (rule find_unique)
    show "g \<in> set (favorites w)" by (rule assms(2))
    show "isGroup (heap w g) \<and> uuid (heap w g) = uuid (heap w g)" using assms(3) by simp
    show "\<forall>y\<in>set (favorites w). isGroup (heap w y) \<and> uuid (heap w y) = uuid (heap w g) \<longrightarrow> y = g"
      using wf_uuid [OF assms(1) _ _ assms(2,3)] by blast
  qed
  then show ?thesis by (simp add: store_getParent_def p)
qed

lemma filter_removeAll_other: "\<not> P x \<Longrightarrow> filter P (removeAll x xs) = filter P xs"
  by (induction xs) auto

lemma promptGroupSelection_Some:
  "B \<in> set (promptGroupSelection [Some A] w) \<Longrightarrow>
     B \<in> set (favorites w) \<and> isGroup (heap w B) \<and> uuid (heap w B) \<noteq> uuid (heap w A)"
  by (auto simp: promptGroupSelection_def)

lemma promptGroupSelection_None [simp]: "promptGroupSelection [None] w = store_groups w"
  by (simp add: promptGroupSelection_def)

lemma example_world_well_formed: "well_formed example_world"
  by (simp add: well_formed_def entities_def store_groups_def)

section \<open>Deleting\<close>

lemma removeFavorite_group:
  assumes "well_formed w" "warningChoice h = Some ''Yes''" "g \<in> set (store_groups w)"
  shows "g \<notin> set (entities (fst (removeFavorite h (Some g) w)))"
    and "\<forall>c \<in> set (children (heap w g)). c \<notin> set (entities (fst (removeFavorite h (Some g) w)))"
proof -
  have g: "g \<in> set (favorites w)" "isGroup (heap w g)" using assms(3) by simp_all
  let ?w = "fst (removeFavorite h (Some g) w)"
  have w: "heap ?w = heap w" "favorites ?w = removeAll g (favorites w)"
    using assms(2) g by (simp_all add: removeFavorite_def store_delete_def)
  show "g \<notin> set (entities ?w)"
    using wf_child [OF assms(1)] g by (auto simp: set_entities w)
  show "\<forall>c \<in> set (children (heap w g)). c \<notin> set (entities ?w)"
    using wf_child_not_top [OF assms(1) g] wf_child_unique [OF assms(1) g]
    by (auto simp: set_entities w)
qed

lemma removeFavorite_top_level:
  assumes "well_formed w" "warningChoice h = Some ''Yes''" "f \<in> set (favorites w)" "isFavorite (heap w f)"
  shows "heap (fst (removeFavorite h (Some f) w)) = heap w"
    and "store_groups (fst (removeFavorite h (Some f) w)) = store_groups w"
    and "f \<notin> set (favorites (fst (removeFavorite h (Some f) w)))"
proof -
  have p: "parent (heap w f) = None" using wf_top [OF assms(1,3,4)] .
  let ?w = "fst (removeFavorite h (Some f) w)"
  show w: "heap ?w = heap w" and "f \<notin> set (favorites ?w)"
    using assms(2) p by (simp_all add: removeFavorite_def store_delete_def)
  have "favorites ?w = removeAll f (favorites w)"
    using assms(2) p by (simp_all add: removeFavorite_def store_delete_def)
  moreover have "\<not> isGroup (heap w f)" using assms(4) by simp
  ultimately show "store_groups ?w = store_groups w"
    by (simp add: store_groups_def w filter_removeAll_other)
qed

text \<open>
  C2. In a well-formed store, once the user has confirmed, deleting a group of the store
  removes the group and every one of its children from the store, and deleting a
  top-level favorite removes it from the list and leaves the groups of the store and
  every object, so every group and every child of a group, exactly as they were.
\<close>

theorem delete_group_or_top_level_favorite:
  assumes "well_formed w" and "warningChoice h = Some ''Yes''"
  shows "(g \<in> set (store_groups w) \<longrightarrow>
            g \<notin> set (entities (fst (removeFavorite h (Some g) w))) \<and>
            (\<forall>c \<in> set (children (heap w g)).
               c \<notin> set (entities (fst (removeFavorite h (Some g) w))))) \<and>
         (f \<in> set (favorites w) \<and> isFavorite (heap w f) \<longrightarrow>
            f \<notin> set (favorites (fst (removeFavorite h (Some f) w))) \<and>
            store_groups (fst (removeFavorite h (Some f) w)) = store_groups w \<and>
            heap (fst (removeFavorite h (Some f) w)) = heap w)"
  using removeFavorite_group [OF assms, of g] removeFavorite_top_level [OF assms, of f]
  by blast

theorem delete_group_or_top_level_favorite_witness:
  "well_formed example_world \<and> warningChoice busy_host = Some ''Yes'' \<and>
   0 \<in> set (store_groups example_world) \<and> children (heap example_world 0) = [2] \<and>
   3 \<in> set (favorites example_world) \<and> isFavorite (heap example_world 3) \<and>
   0 \<notin> set (entities (fst (removeFavorite busy_host (Some 0) example_world))) \<and>
   2 \<notin> set (entities (fst (removeFavorite busy_host (Some 0) example_world))) \<and>
   3 \<notin> set (favorites (fst (removeFavorite busy_host (Some 3) example_world))) \<and>
   store_groups (fst (removeFavorite busy_host (Some 3) example_world)) = [0, 1] \<and>
   heap (fst (removeFavorite busy_host (Some 3) example_world)) = example_heap"
proof -
  have a: "well_formed example_world" "warningChoice busy_host = Some ''Yes''"
    by (simp_all add: example_world_well_formed)
  have b: "0 \<in> set (store_groups example_world)" "children (heap example_world 0) = [2]"
    "3 \<in> set (favorites example_world)" "isFavorite (heap example_world 3)"
    by simp_all
  show ?thesis
    using a b delete_group_or_top_level_favorite [OF a, of 0 3]
    by simp
qed

section \<open>Moving\<close>

lemma moveFavorite_from_group:
  assumes wf: "well_formed w"
    and pick: "showQuickPick h (promptGroupSelection [store_getParent f w] w) = Some B"
    and A: "A \<in> set (store_groups w)" and f: "f \<in> set (children (heap w A))"
  shows "f \<notin> set (children (heap (fst (moveFavorite h (Some f) w)) A))"
    and "count_list (children (heap (fst (moveFavorite h (Some f) w)) B)) f = 1"
proof -
  have A': "A \<in> set (favorites w)" "isGroup (heap w A)" using A by simp_all
  have gp: "store_getParent f w = Some A" by (rule wf_getParent [OF wf A' f])
  have "B \<in> set (promptGroupSelection [Some A] w)"
    using showQuickPick_member [OF pick] gp by simp
  then have B: "B \<in> set (favorites w)" "isGroup (heap w B)"
    and AB: "uuid (heap w B) \<noteq> uuid (heap w A)"
    using promptGroupSelection_Some by blast+
  have ne: "A \<noteq> B" using AB by auto
  have ff: "\<not> isGroup (heap w f)" using wf_child [OF wf A' f] by simp
  have fA: "f \<noteq> A" "f \<noteq> B" using ff A' B by auto
  have nb: "f \<notin> set (children (heap w B))"
    using wf_child_unique [OF wf A' B f] ne by blast
  let ?w = "fst (moveFavorite h (Some f) w)"
  have hA: "children (heap ?w A) = removeAll f (children (heap w A))"
    and hB: "children (heap ?w B) = children (heap w B) @ [f]"
    using pick gp ne fA A' B
    by (simp_all add: moveFavorite_def Let_def removeChild_def addChild_def store_update_def)
  show "f \<notin> set (children (heap ?w A))" by (simp add: hA)
  show "count_list (children (heap ?w B)) f = 1" using nb by (simp add: hB)
qed

lemma moveFavorite_from_top_level:
  assumes wf: "well_formed w"
    and pick: "showQuickPick h (promptGroupSelection [store_getParent f w] w) = Some B"
    and f: "f \<in> set (favorites w)" "isFavorite (heap w f)"
  shows "f \<notin> set (favorites (fst (moveFavorite h (Some f) w)))"
    and "count_list (children (heap (fst (moveFavorite h (Some f) w)) B)) f = 1"
proof -
  have p: "parent (heap w f) = None" by (rule wf_top [OF wf f])
  then have gp: "store_getParent f w = None" by simp
  have "B \<in> set (store_groups w)" using showQuickPick_member [OF pick] gp by simp
  then have B: "B \<in> set (favorites w)" "isGroup (heap w B)" by simp_all
  have fB: "f \<noteq> B" using f(2) B by auto
  have nb: "f \<notin> set (children (heap w B))"
    using wf_child_not_top [OF wf B] f(1) by blast
  let ?w = "fst (moveFavorite h (Some f) w)"
  have hF: "favorites ?w = removeAll f (favorites w)"
    and hB: "children (heap ?w B) = children (heap w B) @ [f]"
    using pick gp fB B p
    by (simp_all add: moveFavorite_def Let_def store_delete_def addChild_def store_update_def)
  show "f \<notin> set (favorites ?w)" by (simp add: hF)
  show "count_list (children (heap ?w B)) f = 1" using nb by (simp add: hB)
qed

text \<open>
  C1. In a well-formed store, let the user pick the group B in the prompt of the move. If
  the favorite f is a child of a group A of the store, then after the move f is no longer
  among the children of A and occurs exactly once among the children of B. If f is a
  top-level favorite, then after the move f is no longer in the top-level list and occurs
  exactly once among the children of B.
\<close>

theorem move_favorite_to_group:
  assumes "well_formed w"
    and "showQuickPick h (promptGroupSelection [store_getParent f w] w) = Some B"
  shows "(\<forall>A. A \<in> set (store_groups w) \<and> f \<in> set (children (heap w A)) \<longrightarrow>
            f \<notin> set (children (heap (fst (moveFavorite h (Some f) w)) A)) \<and>
            count_list (children (heap (fst (moveFavorite h (Some f) w)) B)) f = 1) \<and>
         (f \<in> set (favorites w) \<and> isFavorite (heap w f) \<longrightarrow>
            f \<notin> set (favorites (fst (moveFavorite h (Some f) w))) \<and>
            count_list (children (heap (fst (moveFavorite h (Some f) w)) B)) f = 1)"
  using moveFavorite_from_group [OF assms] moveFavorite_from_top_level [OF assms]
  by blast

theorem move_favorite_to_group_witness:
  "well_formed example_world \<and>
   showQuickPick busy_host (promptGroupSelection [store_getParent 2 example_world] example_world)
     = Some 1 \<and>
   showQuickPick busy_host (promptGroupSelection [store_getParent 3 example_world] example_world)
     = Some 0 \<and>
   0 \<in> set (store_groups example_world) \<and> 2 \<in> set (children (heap example_world 0)) \<and>
   3 \<in> set (favorites example_world) \<and> isFavorite (heap example_world 3) \<and>
   2 \<notin> set (children (heap (fst (moveFavorite busy_host (Some 2) example_world)) 0)) \<and>
   count_list (children (heap (fst (moveFavorite busy_host (Some 2) example_world)) 1)) 2 = 1 \<and>
   3 \<notin> set (favorites (fst (moveFavorite busy_host (Some 3) example_world))) \<and>
   count_list (children (heap (fst (moveFavorite busy_host (Some 3) example_world)) 0)) 3 = 1"
proof -
  have wf: "well_formed example_world" by (rule example_world_well_formed)
  have p2: "showQuickPick busy_host
      (promptGroupSelection [store_getParent 2 example_world] example_world) = Some 1"
    by (simp add: showQuickPick_def promptGroupSelection_def store_getParent_def
        store_groups_def)
  have p3: "showQuickPick busy_host
      (promptGroupSelection [store_getParent 3 example_world] example_world) = Some 0"
    by (simp add: showQuickPick_def store_groups_def)
  have b: "0 \<in> set (store_groups example_world)" "2 \<in> set (children (heap example_world 0))"
    "3 \<in> set (favorites example_world)" "isFavorite (heap example_world 3)"
    by simp_all
  have m2: "2 \<notin> set (children (heap (fst (moveFavorite busy_host (Some 2) example_world)) 0)) \<and>
     count_list (children (heap (fst (moveFavorite busy_host (Some 2) example_world)) 1)) 2 = 1"
    using move_favorite_to_group [OF wf p2] b(1,2) by blast
  have m3: "3 \<notin> set (favorites (fst (moveFavorite busy_host (Some 3) example_world))) \<and>
     count_list (children (heap (fst (moveFavorite busy_host (Some 3) example_world)) 0)) 3 = 1"
    using move_favorite_to_group [OF wf p3] b(3,4) by blast
  show ?thesis
    using wf p2 p3 b m2 m3 by blast
qed

section \<open>Saving and reloading\<close>

lemma jsonFavorite_favoriteJson [simp]: "jsonFavorite (favoriteJson f) = Some f"
  by (simp add: favoriteJson_def)

lemma those_map_Some: "(\<And>x. f (g x) = Some x) \<Longrightarrow> those (map (f \<circ> g) xs) = Some xs"
  by (induction xs) simp_all

lemma jsonEntry_entryJson [simp]: "jsonEntry (entryJson e) = Some e"
  by (cases e) (simp_all add: favoriteJson_def those_map_Some)

lemma fromJson_toJson [simp]: "fromJson (toJson es) = Some es"
  by (simp add: toJson_def those_map_Some)

lemma entryOf_group:
  "isGroup (heap w r) \<Longrightarrow>
     entryOf w r =
       GroupEntry (label (heap w r))
         (map (\<lambda>c. (label (heap w c), resourcePath (heap w c))) (children (heap w r)))"
  by (cases "heap w r") (simp_all add: entryOf_def)

lemma entryOf_favorite:
  "\<not> isGroup (heap w r) \<Longrightarrow>
     entryOf w r = FavoriteEntry (label (heap w r)) (resourcePath (heap w r))"
  by (cases "heap w r") (simp_all add: entryOf_def)

lemma loadChildren_spec:
  assumes "g < fresh w" "isGroup (heap w g)"
    "\<forall>c \<in> set (children (heap w g)). c < fresh w \<and> c \<noteq> g"
  shows "fresh w \<le> fresh (loadChildren h g cs w) \<and>
         (\<forall>r. r < fresh w \<and> r \<noteq> g \<longrightarrow> heap (loadChildren h g cs w) r = heap w r) \<and>
         isGroup (heap (loadChildren h g cs w) g) \<and>
         label (heap (loadChildren h g cs w) g) = label (heap w g) \<and>
         (\<forall>c \<in> set (children (heap (loadChildren h g cs w) g)).
            c < fresh (loadChildren h g cs w)) \<and>
         map (\<lambda>c. (label (heap (loadChildren h g cs w) c),
                     resourcePath (heap (loadChildren h g cs w) c)))
           (children (heap (loadChildren h g cs w) g))
         = map (\<lambda>c. (label (heap w c), resourcePath (heap w c))) (children (heap w g)) @ cs"
  using assms
proof (induction cs arbitrary: w)
  case Nil
  then show ?case by simp
next
  case (Cons c cs)
  let ?f = "fresh w"
  let ?w = "addChild g ?f
              (assign ?f (set_resourcePath (snd c))
                (assign ?f (set_label (fst c)) (snd (new_Favorite h w))))"
  have step: "loadChildren h g (c # cs) w = loadChildren h g cs ?w"
    by (simp add: new_Favorite_def Let_def)
  have ne: "g \<noteq> ?f" using Cons.prems(1) by simp
  have fr: "fresh ?w = Suc ?f" by (simp add: addChild_def new_Favorite_def Let_def)
  have hg: "heap ?w g = set_children (children (heap w g) @ [?f]) (heap w g)"
    using ne by (simp add: addChild_def new_Favorite_def Let_def)
  have hf: "label (heap ?w ?f) = fst c" "resourcePath (heap ?w ?f) = snd c"
    using ne by (simp_all add: addChild_def new_Favorite_def Let_def)
  have ho: "heap ?w r = heap w r" if "r < ?f" "r \<noteq> g" for r
    using that ne by (simp add: addChild_def new_Favorite_def Let_def)
  have p1: "g < fresh ?w" using Cons.prems(1) fr by simp
  have p2: "isGroup (heap ?w g)" using Cons.prems(2) hg by simp
  have ch: "children (heap ?w g) = children (heap w g) @ [?f]"
    using Cons.prems(2) hg by simp
  have p3: "\<forall>c \<in> set (children (heap ?w g)). c < fresh ?w \<and> c \<noteq> g"
    using Cons.prems(3) ne by (auto simp: ch fr)
  note IH = Cons.IH [OF p1 p2 p3]
  have old: "map (\<lambda>c. (label (heap ?w c), resourcePath (heap ?w c))) (children (heap w g))
           = map (\<lambda>c. (label (heap w c), resourcePath (heap w c))) (children (heap w g))"
    using Cons.prems(3) ho by (intro map_cong) auto
  have lab: "label (heap ?w g) = label (heap w g)" by (simp add: hg)
  have m: "map (\<lambda>c. (label (heap ?w c), resourcePath (heap ?w c))) (children (heap ?w g)) @ cs
         = map (\<lambda>c. (label (heap w c), resourcePath (heap w c))) (children (heap w g)) @ c # cs"
    by (simp add: ch old hf)
  have frame: "\<forall>r. r < fresh w \<and> r \<noteq> g \<longrightarrow> heap (loadChildren h g cs ?w) r = heap w r"
  proof (intro allI impI)
    fix r assume r: "r < fresh w \<and> r \<noteq> g"
    then have "r < fresh ?w \<and> r \<noteq> g" using fr by simp
    then have "heap (loadChildren h g cs ?w) r = heap ?w r" using IH by blast
    then show "heap (loadChildren h g cs ?w) r = heap w r" using ho r by simp
  qed
  have le: "fresh w \<le> fresh (loadChildren h g cs ?w)" using IH fr by simp
  show ?case
    unfolding step using IH frame le lab m by simp
qed

lemma loadEntries_spec:
  "loadEntries h es w = (rs, w1) \<Longrightarrow>
     fresh w \<le> fresh w1 \<and> (\<forall>r. r < fresh w \<longrightarrow> heap w1 r = heap w r) \<and>
     map (entryOf w1) rs = es"
proof (induction es arbitrary: w rs w1)
  case Nil
  then show ?case by simp
next
  case (Cons e es)
  show ?case
  proof (cases e)
    case (FavoriteEntry l p)
    let ?f = "fresh w"
    let ?w = "assign ?f (set_resourcePath p) (assign ?f (set_label l) (snd (new_Favorite h w)))"
    obtain rs' where l: "loadEntries h es ?w = (rs', w1)" and rs: "rs = ?f # rs'"
      using Cons.prems FavoriteEntry
      by (auto simp: new_Favorite_def Let_def split: prod.splits)
    have fr: "fresh ?w = Suc ?f" by (simp add: new_Favorite_def)
    have hf: "heap ?w ?f = Favorite (uuidv4 h ?f) l p None None"
      by (simp add: new_Favorite_def)
    have ho: "heap ?w r = heap w r" if "r < ?f" for r
      using that by (simp add: new_Favorite_def)
    note IH = Cons.IH [OF l]
    have h1: "heap w1 ?f = Favorite (uuidv4 h ?f) l p None None"
    proof -
      have "?f < fresh ?w" using fr by simp
      then have "heap w1 ?f = heap ?w ?f" using IH by blast
      then show ?thesis by (simp only: hf)
    qed
    have e: "entryOf w1 ?f = FavoriteEntry l p" by (simp add: entryOf_def h1)
    have frame: "\<forall>r. r < fresh w \<longrightarrow> heap w1 r = heap w r"
    proof (intro allI impI)
      fix r assume r: "r < fresh w"
      then have "heap w1 r = heap ?w r" using IH fr by simp
      then show "heap w1 r = heap w r" using ho r by simp
    qed
    show ?thesis using IH fr frame e by (simp add: rs FavoriteEntry)
  next
    case (GroupEntry l cs)
    let ?g = "fresh w"
    let ?w2 = "assign ?g (set_label l) (snd (new_Group h w))"
    let ?w3 = "loadChildren h ?g cs ?w2"
    obtain rs' where l: "loadEntries h es ?w3 = (rs', w1)" and rs: "rs = ?g # rs'"
      using Cons.prems GroupEntry
      by (auto simp: new_Group_def Let_def split: prod.splits)
    have fr: "fresh ?w2 = Suc ?g" by (simp add: new_Group_def)
    have hg: "heap ?w2 ?g = Group (uuidv4 h ?g) l []" by (simp add: new_Group_def)
    have ho: "heap ?w2 r = heap w r" if "r < ?g" for r
      using that by (simp add: new_Group_def)
    have p1: "?g < fresh ?w2" using fr by simp
    have p2: "isGroup (heap ?w2 ?g)" unfolding hg by simp
    have p3: "\<forall>c \<in> set (children (heap ?w2 ?g)). c < fresh ?w2 \<and> c \<noteq> ?g"
      unfolding hg by simp
    note LC = loadChildren_spec [OF p1 p2 p3, of h cs]
    note IH = Cons.IH [OF l]
    have g3: "?g < fresh ?w3" using LC fr by simp
    have hg1: "heap w1 ?g = heap ?w3 ?g" using IH g3 by simp
    have hc1: "heap w1 c = heap ?w3 c" if "c \<in> set (children (heap ?w3 ?g))" for c
      using that LC IH by simp
    have m: "map (\<lambda>c. (label (heap w1 c), resourcePath (heap w1 c))) (children (heap ?w3 ?g))
           = map (\<lambda>c. (label (heap ?w3 c), resourcePath (heap ?w3 c))) (children (heap ?w3 ?g))"
      using hc1 by (intro map_cong) auto
    have l2: "label (heap ?w2 ?g) = l" "children (heap ?w2 ?g) = []" unfolding hg by simp_all
    have g1: "isGroup (heap w1 ?g)" "label (heap w1 ?g) = l"
      unfolding hg1 using LC l2 by metis+
    have "map (\<lambda>c. (label (heap ?w3 c), resourcePath (heap ?w3 c))) (children (heap ?w3 ?g)) = cs"
      using LC unfolding l2 by simp
    then have e: "entryOf w1 ?g = GroupEntry l cs"
      using m g1 by (simp add: entryOf_group hg1)
    have frame: "\<forall>r. r < fresh w \<longrightarrow> heap w1 r = heap w r"
    proof (intro allI impI)
      fix r assume r: "r < fresh w"
      then have "r < fresh ?w3" using g3 by simp
      then have "heap w1 r = heap ?w3 r" using IH by simp
      also have "\<dots> = heap ?w2 r" using LC r fr by simp
      also have "\<dots> = heap w r" using ho r by simp
      finally show "heap w1 r = heap w r" .
    qed
    have le: "fresh w \<le> fresh w1" using IH g3 by simp
    show ?thesis using IH frame e le by (simp add: rs GroupEntry)
  qed
qed

lemma reload_of_written_document:
  assumes "storeFile w2 = Some (toJson es)"
  shows "\<exists>w1. store_refresh h w2 = Inr w1 \<and> entries w1 = es"
proof -
  obtain rs w1 where l: "loadEntries h es w2 = (rs, w1)"
    by (cases "loadEntries h es w2")
  have "map (entryOf w1) rs = es" using loadEntries_spec [OF l] by simp
  moreover have "entryOf (w1\<lparr>favorites := rs\<rparr>) = entryOf w1"
    by (simp add: entryOf_def fun_eq_iff split: bookmarkable.splits)
  ultimately have "entries (w1\<lparr>favorites := rs\<rparr>) = es" by (simp add: entries_def)
  moreover have "store_refresh h w2 = Inr (w1\<lparr>favorites := rs\<rparr>)"
    using l assms by (simp add: store_refresh_def)
  ultimately show ?thesis by blast
qed

text \<open>
  C5. Writing the store back and reloading it succeeds and yields the same entity list:
  the same entries in the same order, each with its label, its resource path, and, for a
  group, its children with their labels and paths. The objects are new ones; identifiers
  and descriptions are not part of the persisted document. The reloaded list is built
  from the document alone: a reload in any state that holds the written document, whatever
  its list in memory, yields the entity list that was written.
\<close>

theorem save_then_reload_round_trip:
  "(\<exists>w1. store_refresh h (persist w) = Inr w1 \<and> entries w1 = entries w) \<and>
   (\<forall>w2. storeFile w2 = storeFile (persist w) \<longrightarrow>
      (\<exists>w1. store_refresh h w2 = Inr w1 \<and> entries w1 = entries w))"
proof -
  have "\<exists>w1. store_refresh h w2 = Inr w1 \<and> entries w1 = entries w"
    if "storeFile w2 = storeFile (persist w)" for w2
  proof (rule reload_of_written_document)
    show "storeFile w2 = Some (toJson (entries w))" using that by (simp add: persist_def)
  qed
  then show ?thesis by blast
qed

theorem save_then_reload_round_trip_witness:
  "entries example_world =
     [GroupEntry ''Work'' [(''notes'', ''/src/notes.md'')], GroupEntry ''Home'' [],
      FavoriteEntry ''todo'' ''/src/todo.md''] \<and>
   entries (empty_world\<lparr>storeFile := storeFile (persist example_world)\<rparr>) = [] \<and>
   storeFile (empty_world\<lparr>storeFile := storeFile (persist example_world)\<rparr>)
     = storeFile (persist example_world) \<and>
   (\<exists>w1. store_refresh busy_host (persist example_world) = Inr w1 \<and>
      entries w1 =
        [GroupEntry ''Work'' [(''notes'', ''/src/notes.md'')], GroupEntry ''Home'' [],
         FavoriteEntry ''todo'' ''/src/todo.md'']) \<and>
   (\<exists>w1. store_refresh busy_host
            (empty_world\<lparr>storeFile := storeFile (persist example_world)\<rparr>) = Inr w1 \<and>
      entries w1 =
        [GroupEntry ''Work'' [(''notes'', ''/src/notes.md'')], GroupEntry ''Home'' [],
         FavoriteEntry ''todo'' ''/src/todo.md''])"
proof -
  let ?w2 = "empty_world\<lparr>storeFile := storeFile (persist example_world)\<rparr>"
  have e: "entries example_world =
     [GroupEntry ''Work'' [(''notes'', ''/src/notes.md'')], GroupEntry ''Home'' [],
      FavoriteEntry ''todo'' ''/src/todo.md'']"
    by (simp add: entries_def entryOf_def)
  have e2: "entries ?w2 = []" by (simp add: entries_def empty_world_def)
  have s: "storeFile ?w2 = storeFile (persist example_world)" by simp
  have r1: "\<exists>w1. store_refresh busy_host (persist example_world) = Inr w1 \<and>
      entries w1 = entries example_world"
    using save_then_reload_round_trip [of busy_host example_world] by blast
  have r2: "\<exists>w1. store_refresh busy_host ?w2 = Inr w1 \<and> entries w1 = entries example_world"
    using s save_then_reload_round_trip [of busy_host example_world] by blast
  show ?thesis using e2 s r1 r2 unfolding e by blast
qed

section \<open>Labels across all operations\<close>








end
